theory Spec2Isabelle
  imports Main "HOL-Library.Sublist"
begin

section \<open>Explained booleans (package inference)\<close>

text \<open>
  The type \<open>PrimitiveFullTrigger\<close> is used by the explanations but declared elsewhere. Only
  its two fields \<open>ProducerRepr\<close> and \<open>ConsumerRepr\<close> are read, and only as arguments of the
  \<open>%s\<close> verb of \<open>fmt.Sprintf\<close>. The type of the representations is therefore a parameter
  \<open>'r\<close>, and the text that \<open>%s\<close> prints for a representation is a parameter
  \<open>fmt :: 'r \<Rightarrow> string\<close> of the renderer (the identity when the fields are strings).
\<close>

record 'r PrimitiveFullTrigger =
  ProducerRepr :: 'r
  ConsumerRepr :: 'r

text \<open>
  A panic of the Go runtime is a value: calling a method on a nil interface value is a nil
  pointer dereference; a failed single-valued type assertion is a panic as well.
\<close>

datatype error = NilPointerDereference | TypeAssertionFailed

text \<open>
  The eight struct types implementing the interface \<open>ExplainedBool\<close>. The field
  \<open>DeeperExplanation\<close> holds an interface value, which in Go may be nil: it is an option.
  The embedded structs \<open>ExplainedTrue\<close> and \<open>ExplainedFalse\<close> have no fields; they
  contribute the method \<open>Val\<close> only.
\<close>

datatype 'r ExplainedBool =
    TrueBecauseShallowConstraint (ExternalAssertion: "'r PrimitiveFullTrigger")
  | FalseBecauseShallowConstraint (ExternalAssertion: "'r PrimitiveFullTrigger")
  | TrueBecauseDeepConstraint (InternalAssertion: "'r PrimitiveFullTrigger")
      (DeeperExplanation: "'r ExplainedBool option")
  | FalseBecauseDeepConstraint (InternalAssertion: "'r PrimitiveFullTrigger")
      (DeeperExplanation: "'r ExplainedBool option")
  | TrueBecauseAnnotation
  | FalseBecauseAnnotation
  | TrueBecauseMyopia (PkgName: string)
  | FalseBecauseMyopia (PkgName: string)

definition ExplainedTrue_Val :: bool where
  "ExplainedTrue_Val = True"

definition ExplainedFalse_Val :: bool where
  "ExplainedFalse_Val = False"

text \<open>\<open>Val\<close> is promoted from the embedded struct of each variant.\<close>

fun Val :: "'r ExplainedBool \<Rightarrow> bool" where
  "Val (TrueBecauseShallowConstraint t) = ExplainedTrue_Val"
| "Val (FalseBecauseShallowConstraint t) = ExplainedFalse_Val"
| "Val (TrueBecauseDeepConstraint t d) = ExplainedTrue_Val"
| "Val (FalseBecauseDeepConstraint t d) = ExplainedFalse_Val"
| "Val TrueBecauseAnnotation = ExplainedTrue_Val"
| "Val FalseBecauseAnnotation = ExplainedFalse_Val"
| "Val (TrueBecauseMyopia p) = ExplainedTrue_Val"
| "Val (FalseBecauseMyopia p) = ExplainedFalse_Val"

text \<open>
  \<open>String\<close>: each \<open>fmt.Sprintf\<close> is written out as the concatenation of the pieces of its
  format string with the text of its arguments, in the order of the arguments. The Deep
  variants call \<open>String\<close> on the deeper explanation before formatting, so a nil deeper
  explanation panics, and a panic below propagates.
\<close>

fun String :: "('r \<Rightarrow> string) \<Rightarrow> 'r ExplainedBool \<Rightarrow> error + string" where
  "String fmt (TrueBecauseShallowConstraint t) =
     Inr (''NILABLE because it describes the value '' @ fmt (ConsumerRepr t) @
          '', and that value is '' @ fmt (ProducerRepr t) @ '', where it is NILABLE'')"
| "String fmt (FalseBecauseShallowConstraint f) =
     Inr (''NONNIL because it describes the value '' @ fmt (ProducerRepr f) @
          '', and that value is '' @ fmt (ConsumerRepr f) @ '', where it must be NONNIL'')"
| "String fmt (TrueBecauseDeepConstraint t d) =
     (case d of
        None \<Rightarrow> Inl NilPointerDereference
      | Some e \<Rightarrow>
          (case String fmt e of
             Inl x \<Rightarrow> Inl x
           | Inr s \<Rightarrow>
               Inr (''NILABLE because it describes the value '' @ fmt (ConsumerRepr t) @
                    '', and that value is '' @ fmt (ProducerRepr t) @ '', where it is '' @ s)))"
| "String fmt (FalseBecauseDeepConstraint f d) =
     (case d of
        None \<Rightarrow> Inl NilPointerDereference
      | Some e \<Rightarrow>
          (case String fmt e of
             Inl x \<Rightarrow> Inl x
           | Inr s \<Rightarrow>
               Inr (''NONNIL because it describes the value '' @ fmt (ProducerRepr f) @
                    '', and that value is '' @ fmt (ConsumerRepr f) @
                    '', where it must be '' @ s)))"
| "String fmt TrueBecauseAnnotation = Inr ''NILABLE because it is annotated as so''"
| "String fmt FalseBecauseAnnotation = Inr ''NONNIL because it is annotated as so''"
| "String fmt (TrueBecauseMyopia pkgName) =
     Inr (''NILABLE because myopic annotation inference for package '' @ pkgName @
          '' decided so'')"
| "String fmt (FalseBecauseMyopia pkgName) =
     Inr (''NONNIL because myopic annotation inference for package '' @ pkgName @
          '' decided so'')"

text \<open>
  The justification shape of a variant is the part of its type name after \<open>Because\<close>.
\<close>

fun isShallowConstraint :: "'r ExplainedBool \<Rightarrow> bool" where
  "isShallowConstraint (TrueBecauseShallowConstraint t) = True"
| "isShallowConstraint (FalseBecauseShallowConstraint t) = True"
| "isShallowConstraint e = False"

fun isDeepConstraint :: "'r ExplainedBool \<Rightarrow> bool" where
  "isDeepConstraint (TrueBecauseDeepConstraint t d) = True"
| "isDeepConstraint (FalseBecauseDeepConstraint t d) = True"
| "isDeepConstraint e = False"

fun isAnnotation :: "'r ExplainedBool \<Rightarrow> bool" where
  "isAnnotation TrueBecauseAnnotation = True"
| "isAnnotation FalseBecauseAnnotation = True"
| "isAnnotation e = False"

fun isMyopia :: "'r ExplainedBool \<Rightarrow> bool" where
  "isMyopia (TrueBecauseMyopia p) = True"
| "isMyopia (FalseBecauseMyopia p) = True"
| "isMyopia e = False"

text \<open>The number of justification shapes that a value has.\<close>

definition shapeCount :: "'r ExplainedBool \<Rightarrow> nat" where
  "shapeCount e =
     length (filter id [isShallowConstraint e, isDeepConstraint e, isAnnotation e, isMyopia e])"

text \<open>
  Unwrapping: follow \<open>DeeperExplanation\<close> through the Deep variants down to the first value
  that is not a Deep Constraint; \<open>None\<close> when the chain ends in a nil interface value.
\<close>

fun leaf :: "'r ExplainedBool \<Rightarrow> 'r ExplainedBool option" where
  "leaf (TrueBecauseDeepConstraint t d) = (case d of None \<Rightarrow> None | Some e \<Rightarrow> leaf e)"
| "leaf (FalseBecauseDeepConstraint t d) = (case d of None \<Rightarrow> None | Some e \<Rightarrow> leaf e)"
| "leaf e = Some e"

text \<open>The representations in the payload of a value, through the whole chain.\<close>

fun reprs :: "'r ExplainedBool \<Rightarrow> 'r set" where
  "reprs (TrueBecauseShallowConstraint t) = {ConsumerRepr t, ProducerRepr t}"
| "reprs (FalseBecauseShallowConstraint t) = {ConsumerRepr t, ProducerRepr t}"
| "reprs (TrueBecauseDeepConstraint t d) =
     {ConsumerRepr t, ProducerRepr t} \<union> (case d of None \<Rightarrow> {} | Some e \<Rightarrow> reprs e)"
| "reprs (FalseBecauseDeepConstraint t d) =
     {ConsumerRepr t, ProducerRepr t} \<union> (case d of None \<Rightarrow> {} | Some e \<Rightarrow> reprs e)"
| "reprs e = {}"

section \<open>Configuration (package config)\<close>

text \<open>
  The struct \<open>Config\<close>. A Go slice that is nil and one that is empty behave alike under
  \<open>range\<close> and \<open>len\<close>: both are the empty list. \<open>FuncAnalysisTimeout\<close> is a Go \<open>int\<close> that is
  stored and never computed with.
\<close>

record Config =
  PrettyPrint :: bool
  GroupErrorMessages :: bool
  FuncAnalysisTimeout :: int
  ExperimentalStructInitEnable :: bool
  ExperimentalAnonymousFuncEnable :: bool
  includePkgs :: "string list"
  excludePkgs :: "string list"
  excludeFileDocStrings :: "string list"

text \<open>
  \<open>types.Package\<close>, of which only \<open>Path()\<close> is read. The argument of \<open>IsPkgInScope\<close> is a
  pointer that the code tests for nil: an option.
\<close>

record Package =
  Path :: string

text \<open>
  \<open>strings.HasPrefix(s, prefix)\<close> of the Go library:
  \<open>len(s) >= len(prefix) && s[:len(prefix)] == prefix\<close>.
\<close>

definition HasPrefix :: "string \<Rightarrow> string \<Rightarrow> bool" where
  "HasPrefix s pre = (length pre \<le> length s \<and> take (length pre) s = pre)"

text \<open>The inner loop of \<open>IsPkgInScope\<close>, over the exclude list, and the \<open>return true\<close> after it.\<close>

fun IsPkgInScope_exclude :: "string \<Rightarrow> string list \<Rightarrow> bool" where
  "IsPkgInScope_exclude path [] = True"
| "IsPkgInScope_exclude path (exclude # rest) =
     (if HasPrefix path exclude then False else IsPkgInScope_exclude path rest)"

text \<open>The outer loop, over the include list, and the \<open>return false\<close> after it.\<close>

fun IsPkgInScope_include :: "string list \<Rightarrow> string \<Rightarrow> string list \<Rightarrow> bool" where
  "IsPkgInScope_include excludes path [] = False"
| "IsPkgInScope_include excludes path (include # rest) =
     (if \<not> HasPrefix path include then IsPkgInScope_include excludes path rest
      else IsPkgInScope_exclude path excludes)"

definition IsPkgInScope :: "Config \<Rightarrow> Package option \<Rightarrow> bool" where
  "IsPkgInScope c pkg =
     (case pkg of
        None \<Rightarrow> False
      | Some p \<Rightarrow> IsPkgInScope_include (excludePkgs c) (Path p) (includePkgs c))"

text \<open>
  \<open>ast.File\<close>, of which \<open>Name.Pos()\<close> (the field \<open>NamePos\<close> of the identifier) and \<open>Comments\<close>
  are read. A comment group is a value of a type \<open>'cg\<close>; its position \<open>comment.Pos()\<close> and the
  helper \<open>asthelper.DocContains\<close>, which is declared elsewhere, are the parameters
  \<open>commentPos\<close> and \<open>docContains\<close>. Positions (\<open>token.Pos\<close>) are integers that are only
  compared.
\<close>

record Ident =
  NamePos :: int

record 'cg File =
  Name :: Ident
  Comments :: "'cg list"

text \<open>
  The inner loop of \<open>IsFileInScope\<close>, over the exclude docstrings: \<open>True\<close> when it reaches
  \<open>return false\<close>, \<open>False\<close> when it runs to its end.
\<close>

fun IsFileInScope_exclude :: "('cg \<Rightarrow> string \<Rightarrow> bool) \<Rightarrow> 'cg \<Rightarrow> string list \<Rightarrow> bool" where
  "IsFileInScope_exclude docContains comment [] = False"
| "IsFileInScope_exclude docContains comment (exclude # rest) =
     (if docContains comment exclude then True
      else IsFileInScope_exclude docContains comment rest)"

text \<open>The outer loop, over the comment groups of the file, and the \<open>return true\<close> after it.\<close>

fun IsFileInScope_comments ::
  "('cg \<Rightarrow> int) \<Rightarrow> ('cg \<Rightarrow> string \<Rightarrow> bool) \<Rightarrow> string list \<Rightarrow> int \<Rightarrow> 'cg list \<Rightarrow> bool" where
  "IsFileInScope_comments commentPos docContains excludes namePos [] = True"
| "IsFileInScope_comments commentPos docContains excludes namePos (comment # rest) =
     (if commentPos comment > namePos
      then IsFileInScope_comments commentPos docContains excludes namePos rest
      else if IsFileInScope_exclude docContains comment excludes then False
      else IsFileInScope_comments commentPos docContains excludes namePos rest)"

definition IsFileInScope ::
  "('cg \<Rightarrow> int) \<Rightarrow> ('cg \<Rightarrow> string \<Rightarrow> bool) \<Rightarrow> Config \<Rightarrow> 'cg File \<Rightarrow> bool" where
  "IsFileInScope commentPos docContains c file =
     (if length (excludeFileDocStrings c) = 0 then True
      else IsFileInScope_comments commentPos docContains (excludeFileDocStrings c)
             (NamePos (Name file)) (Comments file))"

subsection \<open>Flags\<close>

definition PrettyPrintFlag :: string where
  "PrettyPrintFlag = ''pretty-print''"

definition GroupErrorMessagesFlag :: string where
  "GroupErrorMessagesFlag = ''group-error-messages''"

definition FuncAnalysisTimeoutFlag :: string where
  "FuncAnalysisTimeoutFlag = ''func-analysis-timeout-in-sec''"

definition IncludePkgsFlag :: string where
  "IncludePkgsFlag = ''include-pkgs''"

definition ExcludePkgsFlag :: string where
  "ExcludePkgsFlag = ''exclude-pkgs''"

definition ExcludeFileDocStringsFlag :: string where
  "ExcludeFileDocStringsFlag = ''exclude-file-docstrings''"

definition ExperimentalStructInitEnableFlag :: string where
  "ExperimentalStructInitEnableFlag = ''experimental-struct-init''"

definition ExperimentalAnonymousFunctionFlag :: string where
  "ExperimentalAnonymousFunctionFlag = ''experimental-anonymous-function''"

text \<open>
  A flag set of the Go library \<open>flag\<close> maps a name to the current value of the flag.
  \<open>fs.Bool\<close>, \<open>fs.Int\<close> and \<open>fs.String\<close> define flags whose values are a \<open>boolValue\<close>, an
  \<open>intValue\<close> and a \<open>stringValue\<close>; each implements \<open>flag.Getter\<close>, and \<open>Get()\<close> returns
  the current value as an \<open>any\<close>. \<open>nonGetter\<close> stands for a value that does not implement
  \<open>flag.Getter\<close>.
\<close>

datatype flag_value = boolValue bool | intValue int | stringValue string | nonGetter

datatype any = AnyBool bool | AnyInt int | AnyString string

type_synonym FlagSet = "string \<rightharpoonup> flag_value"

definition newFlagSet :: FlagSet where
  "newFlagSet =
     Map.empty
       (PrettyPrintFlag \<mapsto> boolValue True,
        GroupErrorMessagesFlag \<mapsto> boolValue True,
        FuncAnalysisTimeoutFlag \<mapsto> intValue 1,
        IncludePkgsFlag \<mapsto> stringValue [],
        ExcludePkgsFlag \<mapsto> stringValue [],
        ExcludeFileDocStringsFlag \<mapsto> stringValue [],
        ExperimentalStructInitEnableFlag \<mapsto> boolValue False,
        ExperimentalAnonymousFunctionFlag \<mapsto> boolValue False)"

text \<open>
  The user provides a flag through \<open>Set\<close> of the library, which parses the text into a value
  of the type of the flag; for a name that is not defined, or a text that does not parse,
  it reports an error and leaves the flag set as it is.
\<close>

fun sameKind :: "flag_value \<Rightarrow> flag_value \<Rightarrow> bool" where
  "sameKind (boolValue a) (boolValue b) = True"
| "sameKind (intValue a) (intValue b) = True"
| "sameKind (stringValue a) (stringValue b) = True"
| "sameKind a b = False"

definition Set_flag :: "FlagSet \<Rightarrow> string \<times> flag_value \<Rightarrow> FlagSet" where
  "Set_flag fs nv =
     (case fs (fst nv) of
        None \<Rightarrow> fs
      | Some old \<Rightarrow> if sameKind old (snd nv) then fs(fst nv \<mapsto> snd nv) else fs)"

text \<open>The flags of the analyzer after the user has provided \<open>args\<close>, in order.\<close>

definition provided :: "(string \<times> flag_value) list \<Rightarrow> FlagSet" where
  "provided args = foldl Set_flag newFlagSet args"

text \<open>
  \<open>flags.Lookup(name).Value.(flag.Getter).Get()\<close>: \<open>Lookup\<close> returns a nil pointer for a name
  that is not defined, whose field \<open>Value\<close> cannot be read; the type assertion to
  \<open>flag.Getter\<close> has one result, so it panics when it fails.
\<close>

definition Get :: "FlagSet \<Rightarrow> string \<Rightarrow> error + any" where
  "Get flags name =
     (case flags name of
        None \<Rightarrow> Inl NilPointerDereference
      | Some (boolValue b) \<Rightarrow> Inr (AnyBool b)
      | Some (intValue i) \<Rightarrow> Inr (AnyInt i)
      | Some (stringValue s) \<Rightarrow> Inr (AnyString s)
      | Some nonGetter \<Rightarrow> Inl TypeAssertionFailed)"

text \<open>
  \<open>strings.Split(s, ",")\<close> of the Go library: the substrings of \<open>s\<close> between the commas; a
  string without a comma is the only element of the result.
\<close>

fun Split_comma :: "string \<Rightarrow> string list" where
  "Split_comma [] = [[]]"
| "Split_comma (c # cs) =
     (if c = CHR '','' then [] # Split_comma cs
      else (case Split_comma cs of [] \<Rightarrow> [[c]] | x # xs \<Rightarrow> (c # x) # xs))"

text \<open>A panic ends \<open>run\<close>; otherwise the rest of the function runs on the value.\<close>

definition bindE :: "error + 'a \<Rightarrow> ('a \<Rightarrow> error + 'b) \<Rightarrow> error + 'b" where
  "bindE m f = (case m of Inl e \<Rightarrow> Inl e | Inr x \<Rightarrow> f x)"

text \<open>
  \<open>run\<close>, on the flag set \<open>pass.Analyzer.Flags\<close>. Each two-valued type assertion
  \<open>.(bool)\<close>, \<open>.(int)\<close>, \<open>.(string)\<close> is a case on the \<open>any\<close>; where it fails the field keeps
  its value. The struct literal leaves \<open>FuncAnalysisTimeout\<close>, the two experimental fields
  and the two exclude lists at their zero values. The result is the pair \<open>(conf, nil)\<close>:
  \<open>Inr conf\<close>.
\<close>

definition run :: "FlagSet \<Rightarrow> error + Config" where
  "run flags =
     (let conf0 = \<lparr>PrettyPrint = True, GroupErrorMessages = True, FuncAnalysisTimeout = 0,
                   ExperimentalStructInitEnable = False,
                   ExperimentalAnonymousFuncEnable = False,
                   includePkgs = [[]], excludePkgs = [], excludeFileDocStrings = []\<rparr>
      in
      bindE (Get flags PrettyPrintFlag) (\<lambda>v1.
      let conf1 = (case v1 of AnyBool prettyPrint \<Rightarrow> conf0\<lparr>PrettyPrint := prettyPrint\<rparr>
                   | _ \<Rightarrow> conf0) in
      bindE (Get flags GroupErrorMessagesFlag) (\<lambda>v2.
      let conf2 = (case v2 of
                     AnyBool groupErrorMessages \<Rightarrow>
                       conf1\<lparr>GroupErrorMessages := groupErrorMessages\<rparr>
                   | _ \<Rightarrow> conf1) in
      bindE (Get flags FuncAnalysisTimeoutFlag) (\<lambda>v3.
      let conf3 = (case v3 of
                     AnyInt funcAnalysisTimeout \<Rightarrow>
                       conf2\<lparr>FuncAnalysisTimeout := funcAnalysisTimeout\<rparr>
                   | _ \<Rightarrow> conf2) in
      bindE (Get flags ExperimentalStructInitEnableFlag) (\<lambda>v4.
      let conf4 = (case v4 of
                     AnyBool enableStructInit \<Rightarrow>
                       conf3\<lparr>ExperimentalStructInitEnable := enableStructInit\<rparr>
                   | _ \<Rightarrow> conf3) in
      bindE (Get flags ExperimentalAnonymousFunctionFlag) (\<lambda>v5.
      let conf5 = (case v5 of
                     AnyBool enableAnonymousFunc \<Rightarrow>
                       conf4\<lparr>ExperimentalAnonymousFuncEnable := enableAnonymousFunc\<rparr>
                   | _ \<Rightarrow> conf4) in
      bindE (Get flags IncludePkgsFlag) (\<lambda>v6.
      let conf6 = (case v6 of
                     AnyString include \<Rightarrow>
                       if include \<noteq> [] then conf5\<lparr>includePkgs := Split_comma include\<rparr>
                       else conf5
                   | _ \<Rightarrow> conf5) in
      bindE (Get flags ExcludePkgsFlag) (\<lambda>v7.
      let conf7 = (case v7 of
                     AnyString exclude \<Rightarrow>
                       if exclude \<noteq> [] then conf6\<lparr>excludePkgs := Split_comma exclude\<rparr>
                       else conf6
                   | _ \<Rightarrow> conf6) in
      bindE (Get flags ExcludeFileDocStringsFlag) (\<lambda>v8.
      let conf8 = (case v8 of
                     AnyString docstrings \<Rightarrow>
                       if docstrings \<noteq> []
                       then conf7\<lparr>excludeFileDocStrings := Split_comma docstrings\<rparr>
                       else conf7
                   | _ \<Rightarrow> conf7) in
      Inr conf8)))))))))"

text \<open>
  The flags that \<open>newFlagSet\<close> defines, each with a value of the type it was defined with,
  whatever that value is.
\<close>

definition hasBool :: "FlagSet \<Rightarrow> string \<Rightarrow> bool" where
  "hasBool fs name = (case fs name of Some (boolValue b) \<Rightarrow> True | _ \<Rightarrow> False)"

definition hasInt :: "FlagSet \<Rightarrow> string \<Rightarrow> bool" where
  "hasInt fs name = (case fs name of Some (intValue i) \<Rightarrow> True | _ \<Rightarrow> False)"

definition hasString :: "FlagSet \<Rightarrow> string \<Rightarrow> bool" where
  "hasString fs name = (case fs name of Some (stringValue s) \<Rightarrow> True | _ \<Rightarrow> False)"

definition analyzerFlags :: "FlagSet \<Rightarrow> bool" where
  "analyzerFlags fs =
     (hasBool fs PrettyPrintFlag \<and> hasBool fs GroupErrorMessagesFlag \<and>
      hasInt fs FuncAnalysisTimeoutFlag \<and> hasString fs IncludePkgsFlag \<and>
      hasString fs ExcludePkgsFlag \<and> hasString fs ExcludeFileDocStringsFlag \<and>
      hasBool fs ExperimentalStructInitEnableFlag \<and>
      hasBool fs ExperimentalAnonymousFunctionFlag)"

section \<open>Example values\<close>

text \<open>
  A chain of two Deep Constraints over an annotation, with representations that are strings.
\<close>

definition exampleChain :: "string ExplainedBool" where
  "exampleChain =
     TrueBecauseDeepConstraint \<lparr>ProducerRepr = ''p1'', ConsumerRepr = ''c1''\<rparr>
       (Some (FalseBecauseDeepConstraint \<lparr>ProducerRepr = ''p2'', ConsumerRepr = ''c2''\<rparr>
          (Some TrueBecauseAnnotation)))"

text \<open>The configuration of the scope scenario; the other fields are those of the defaults.\<close>

definition scenarioConfig :: Config where
  "scenarioConfig =
     \<lparr>PrettyPrint = True, GroupErrorMessages = True, FuncAnalysisTimeout = 1,
      ExperimentalStructInitEnable = False, ExperimentalAnonymousFuncEnable = False,
      includePkgs = [''mod/a''], excludePkgs = [''mod/a/internal''],
      excludeFileDocStrings = [''@generated'', ''Code generated by'']\<rparr>"

text \<open>
  A file whose comment groups are pairs of a position and a text: one before the package
  name, at position 40, and one after it. In the example a docstring is contained in a
  group when it is a substring of its text.
\<close>

definition exampleFile :: "(int \<times> string) File" where
  "exampleFile =
     \<lparr>Name = \<lparr>NamePos = 40\<rparr>,
      Comments = [(1, ''// Code generated by tool''), (90, ''// @generated'')]\<rparr>"

text \<open>Substring test in the manner of \<open>strings.Contains\<close>.\<close>

fun Contains :: "string \<Rightarrow> string \<Rightarrow> bool" where
  "Contains [] substr = (substr = [])"
| "Contains (c # cs) substr = (HasPrefix (c # cs) substr \<or> Contains cs substr)"

definition exampleContains :: "int \<times> string \<Rightarrow> string \<Rightarrow> bool" where
  "exampleContains comment s = Contains (snd comment) s"

section \<open>Properties of the explained booleans\<close>

text \<open>
  C1. Every Explained Bool carries a fixed boolean value determined by its variant: \<open>Val\<close>
  is true for each of the four true-variants and false for each of the four false-variants,
  whatever the payload (trigger, deeper explanation, package name), and every value has
  exactly one of the four justification shapes.
\<close>

theorem Val_fixed_by_variant:
  "Val (TrueBecauseShallowConstraint t) = True \<and>
   Val (TrueBecauseDeepConstraint t d) = True \<and>
   Val (TrueBecauseAnnotation :: 'r ExplainedBool) = True \<and>
   Val (TrueBecauseMyopia p :: 'r ExplainedBool) = True \<and>
   Val (FalseBecauseShallowConstraint t) = False \<and>
   Val (FalseBecauseDeepConstraint t d) = False \<and>
   Val (FalseBecauseAnnotation :: 'r ExplainedBool) = False \<and>
   Val (FalseBecauseMyopia p :: 'r ExplainedBool) = False \<and>
   shapeCount (e :: 'r ExplainedBool) = 1"
  by (cases e) (simp_all add: ExplainedTrue_Val_def ExplainedFalse_Val_def shapeCount_def)

text \<open>Unwrapping ends at a value that is not a Deep Constraint.\<close>

lemma leaf_not_deep: "leaf e = Some l \<Longrightarrow> \<not> isDeepConstraint l"
  by (induction e rule: leaf.induct) (auto split: option.splits)

text \<open>The rendering of a chain that ends in a leaf ends with the rendering of that leaf.\<close>

lemma leaf_suffix:
  "leaf e = Some l \<Longrightarrow> \<exists>s sl. String fmt e = Inr s \<and> String fmt l = Inr sl \<and> suffix sl s"
proof (induction e rule: leaf.induct)
  case (1 t d)
  then show ?case
    by (cases d) (auto simp: suffix_def)
next
  case (2 t d)
  then show ?case
    by (cases d) (auto simp: suffix_def)
qed (auto simp: suffix_def)

text \<open>A value that is not a Deep Constraint renders to one sentence, without recursion.\<close>

lemma terminal_sentence:
  "\<not> isDeepConstraint l \<Longrightarrow>
   \<exists>rest. String fmt l = Inr ((if Val l then ''NILABLE'' else ''NONNIL'') @ '' because '' @ rest)"
  by (cases l) (simp_all add: ExplainedTrue_Val_def ExplainedFalse_Val_def)

lemma leaf_terminal: "\<not> isDeepConstraint l \<Longrightarrow> leaf l = Some l"
  by (cases l) simp_all

text \<open>A chain that ends in a nil deeper explanation panics when it is rendered.\<close>

lemma String_nil_chain: "leaf e = None \<Longrightarrow> String fmt e = Inl NilPointerDereference"
proof (induction e rule: leaf.induct)
  case (1 t d)
  then show ?case by (cases d) auto
next
  case (2 t d)
  then show ?case by (cases d) auto
qed auto

text \<open>
  C2. Rendering is a recursive causal sentence. The \<open>String\<close> of a Deep Constraint (true or
  false) over a deeper explanation that renders to \<open>sd\<close> is its own clause followed by
  \<open>sd\<close>. Hence for a chain of Deep Constraints that unwraps to a leaf \<open>l\<close>, the rendering
  of the chain ends with the rendering of \<open>l\<close>, and \<open>l\<close> is a Shallow Constraint, an
  Annotation or a Myopia. The rendering of such a leaf has no deeper explanation to unwrap
  and is a sentence \<open>NILABLE because ...\<close> or \<open>NONNIL because ...\<close>, according to its value.
\<close>

theorem String_unwraps_to_leaf:
  "(String fmt d = Inr sd \<longrightarrow>
      String fmt (TrueBecauseDeepConstraint t (Some d)) =
        Inr (''NILABLE because it describes the value '' @ fmt (ConsumerRepr t) @
             '', and that value is '' @ fmt (ProducerRepr t) @ '', where it is '' @ sd) \<and>
      String fmt (FalseBecauseDeepConstraint t (Some d)) =
        Inr (''NONNIL because it describes the value '' @ fmt (ProducerRepr t) @
             '', and that value is '' @ fmt (ConsumerRepr t) @ '', where it must be '' @ sd)) \<and>
   (leaf e = Some l \<longrightarrow>
      \<not> isDeepConstraint l \<and>
      (\<exists>s sl. String fmt e = Inr s \<and> String fmt l = Inr sl \<and> suffix sl s)) \<and>
   (\<not> isDeepConstraint k \<longrightarrow>
      leaf k = Some k \<and>
      (\<exists>rest. String fmt k =
         Inr ((if Val k then ''NILABLE'' else ''NONNIL'') @ '' because '' @ rest)))"
proof (intro conjI impI)
  assume "String fmt d = Inr sd"
  then show "String fmt (TrueBecauseDeepConstraint t (Some d)) =
        Inr (''NILABLE because it describes the value '' @ fmt (ConsumerRepr t) @
             '', and that value is '' @ fmt (ProducerRepr t) @ '', where it is '' @ sd)"
    by simp
next
  assume "String fmt d = Inr sd"
  then show "String fmt (FalseBecauseDeepConstraint t (Some d)) =
        Inr (''NONNIL because it describes the value '' @ fmt (ProducerRepr t) @
             '', and that value is '' @ fmt (ConsumerRepr t) @ '', where it must be '' @ sd)"
    by simp
next
  assume "leaf e = Some l"
  then show "\<not> isDeepConstraint l"
    by (rule leaf_not_deep)
next
  assume "leaf e = Some l"
  then show "\<exists>s sl. String fmt e = Inr s \<and> String fmt l = Inr sl \<and> suffix sl s"
    by (rule leaf_suffix)
next
  assume "\<not> isDeepConstraint k"
  then show "leaf k = Some k"
    by (rule leaf_terminal)
next
  assume "\<not> isDeepConstraint k"
  then show "\<exists>rest. String fmt k =
         Inr ((if Val k then ''NILABLE'' else ''NONNIL'') @ '' because '' @ rest)"
    by (rule terminal_sentence)
qed

theorem String_unwraps_to_leaf_witness:
  "String id (TrueBecauseAnnotation :: string ExplainedBool) =
     Inr ''NILABLE because it is annotated as so'' \<and>
   leaf exampleChain = Some TrueBecauseAnnotation \<and>
   \<not> isDeepConstraint (TrueBecauseAnnotation :: string ExplainedBool) \<and>
   String id (FalseBecauseDeepConstraint \<lparr>ProducerRepr = ''p2'', ConsumerRepr = ''c2''\<rparr>
                (Some TrueBecauseAnnotation)) =
     Inr (''NONNIL because it describes the value p2, and that value is c2, '' @
          ''where it must be NILABLE because it is annotated as so'') \<and>
   (\<exists>s. String id exampleChain = Inr s \<and> suffix ''NILABLE because it is annotated as so'' s)"
  using String_unwraps_to_leaf
          [where fmt = id and d = "TrueBecauseAnnotation :: string ExplainedBool"
             and sd = "''NILABLE because it is annotated as so''"
             and t = "\<lparr>ProducerRepr = ''p2'', ConsumerRepr = ''c2''\<rparr>"
             and e = exampleChain and l = TrueBecauseAnnotation
             and k = TrueBecauseAnnotation]
  by (simp add: exampleChain_def)

text \<open>
  The rendering reads the renderer of the representations only at the representations in the
  payload of the value.
\<close>

lemma String_cong_reprs:
  "\<forall>r\<in>reprs e. f r = g r \<Longrightarrow> String f e = String g e"
proof (induction e rule: reprs.induct)
  case (3 t d)
  then show ?case by (cases d) (auto split: sum.splits)
next
  case (4 t d)
  then show ?case by (cases d) (auto split: sum.splits)
qed auto

text \<open>
  C4. Rendering is deterministic: the result of \<open>String\<close> is determined by the variant and
  the payload of the value and by the text of the representations in that payload, so two
  calls on structurally identical values produce identical text (or the identical panic).
\<close>

theorem String_deterministic:
  "e1 = e2 \<Longrightarrow> \<forall>r\<in>reprs e1. f r = g r \<Longrightarrow> String f e1 = String g e2"
  using String_cong_reprs by blast

theorem String_deterministic_witness:
  "reprs exampleChain = {''c1'', ''p1'', ''c2'', ''p2''} \<and>
   id ''c1'' = take 8 ''c1'' \<and> id ''p1'' = take 8 ''p1'' \<and>
   id ''c2'' = take 8 ''c2'' \<and> id ''p2'' = take 8 ''p2'' \<and>
   String id exampleChain = String (take 8) exampleChain"
proof -
  have r: "reprs exampleChain = {''c1'', ''p1'', ''c2'', ''p2''}"
    by (auto simp: exampleChain_def)
  have h: "\<forall>r\<in>reprs exampleChain. id r = take 8 r"
    by (simp add: r)
  have "String id exampleChain = String (take 8) exampleChain"
    using h by (rule String_deterministic [OF refl])
  with r show ?thesis
    by simp
qed

text \<open>
  C7. A Myopia label is scoped to its package: both Myopia variants carry the package name
  in their payload, and their rendering is the sentence
  \<open>... because myopic annotation inference for package <PkgName> decided so\<close>, which
  contains the package name.
\<close>

theorem Myopia_names_package:
  "PkgName (TrueBecauseMyopia p :: 'r ExplainedBool) = p \<and>
   PkgName (FalseBecauseMyopia p :: 'r ExplainedBool) = p \<and>
   String fmt (TrueBecauseMyopia p :: 'r ExplainedBool) =
     Inr (''NILABLE because myopic annotation inference for package '' @ p @ '' decided so'') \<and>
   String fmt (FalseBecauseMyopia p :: 'r ExplainedBool) =
     Inr (''NONNIL because myopic annotation inference for package '' @ p @ '' decided so'') \<and>
   (\<exists>s. String fmt (TrueBecauseMyopia p :: 'r ExplainedBool) = Inr s \<and> sublist p s) \<and>
   (\<exists>s. String fmt (FalseBecauseMyopia p :: 'r ExplainedBool) = Inr s \<and> sublist p s)"
proof -
  have inside: "\<exists>s. Inr (A @ p @ B) = (Inr s :: error + string) \<and> sublist p s" for A B
    by (rule exI [of _ "A @ p @ B"]) (simp add: sublist_appendI)
  show ?thesis
    by (simp only: String.simps ExplainedBool.sel inside simp_thms)
qed

section \<open>Properties of the scope predicates\<close>

lemma HasPrefix_prefix: "HasPrefix s pre = prefix pre s"
  by (auto simp: HasPrefix_def prefix_def dest: sym) (metis append_eq_conv_conj)

lemma IsPkgInScope_exclude_iff:
  "IsPkgInScope_exclude path es = (\<not> (\<exists>e\<in>set es. prefix e path))"
  by (induction es) (auto simp: HasPrefix_prefix)

lemma IsPkgInScope_include_iff:
  "IsPkgInScope_include es path is =
     ((\<exists>i\<in>set is. prefix i path) \<and> \<not> (\<exists>e\<in>set es. prefix e path))"
  by (induction "is") (auto simp: HasPrefix_prefix IsPkgInScope_exclude_iff)

text \<open>
  C3. For every non-nil package, \<open>IsPkgInScope\<close> is true if and only if some entry of the
  include list is a prefix of the path of the package and no entry of the exclude list is
  (the exclude list takes precedence). In particular, with the include list \<open>["mod/a"]\<close>
  and the exclude list \<open>["mod/a/internal"]\<close>, \<open>mod/a/pkg\<close> is in scope, and
  \<open>mod/a/internal/x\<close> and \<open>mod/b\<close> are not.
\<close>

theorem IsPkgInScope_iff:
  "IsPkgInScope c (Some pkg) =
     ((\<exists>i\<in>set (includePkgs c). prefix i (Path pkg)) \<and>
      \<not> (\<exists>e\<in>set (excludePkgs c). prefix e (Path pkg))) \<and>
   (includePkgs c = [''mod/a''] \<and> excludePkgs c = [''mod/a/internal''] \<longrightarrow>
      IsPkgInScope c (Some \<lparr>Path = ''mod/a/pkg''\<rparr>) \<and>
      \<not> IsPkgInScope c (Some \<lparr>Path = ''mod/a/internal/x''\<rparr>) \<and>
      \<not> IsPkgInScope c (Some \<lparr>Path = ''mod/b''\<rparr>))"
  by (simp add: IsPkgInScope_def IsPkgInScope_include_iff)

theorem IsPkgInScope_iff_witness:
  "includePkgs scenarioConfig = [''mod/a''] \<and>
   excludePkgs scenarioConfig = [''mod/a/internal''] \<and>
   (\<exists>i\<in>set (includePkgs scenarioConfig). prefix i ''mod/a/pkg'') \<and>
   \<not> (\<exists>e\<in>set (excludePkgs scenarioConfig). prefix e ''mod/a/pkg'') \<and>
   IsPkgInScope scenarioConfig (Some \<lparr>Path = ''mod/a/pkg''\<rparr>) \<and>
   \<not> IsPkgInScope scenarioConfig (Some \<lparr>Path = ''mod/a/internal/x''\<rparr>) \<and>
   \<not> IsPkgInScope scenarioConfig (Some \<lparr>Path = ''mod/b''\<rparr>)"
  using IsPkgInScope_iff [of scenarioConfig "\<lparr>Path = ''mod/a/pkg''\<rparr>"]
  by (simp add: scenarioConfig_def)

text \<open>
  C9. \<open>IsPkgInScope\<close> on a nil package returns false, for every configuration: the nil
  branch is taken before the path is looked at, so a nil package is never in scope and
  does not make the call fail.
\<close>

theorem IsPkgInScope_nil:
  "IsPkgInScope c None = False"
  by (simp add: IsPkgInScope_def)

lemma IsFileInScope_exclude_iff:
  "IsFileInScope_exclude dc cm es = (\<exists>e\<in>set es. dc cm e)"
  by (induction es) auto

lemma IsFileInScope_comments_iff:
  "IsFileInScope_comments cp dc es np cs =
     (\<not> (\<exists>cm\<in>set cs. cp cm \<le> np \<and> (\<exists>e\<in>set es. dc cm e)))"
  by (induction cs) (auto simp: IsFileInScope_exclude_iff)

text \<open>
  C5. \<open>IsFileInScope\<close> returns true whenever the list of exclude docstrings is empty.
  In every case it returns false if and only if some exclude docstring is contained in a
  comment group of the file that is not positioned after the package name. Its result is a
  boolean: a file out of scope is filtered, and no error is raised.
\<close>

theorem IsFileInScope_iff:
  "(excludeFileDocStrings c = [] \<longrightarrow> IsFileInScope commentPos docContains c file) \<and>
   (\<not> IsFileInScope commentPos docContains c file) =
     (\<exists>comment\<in>set (Comments file).
        commentPos comment \<le> NamePos (Name file) \<and>
        (\<exists>exclude\<in>set (excludeFileDocStrings c). docContains comment exclude))"
  by (auto simp: IsFileInScope_def IsFileInScope_comments_iff)

theorem IsFileInScope_iff_witness:
  "excludeFileDocStrings (scenarioConfig\<lparr>excludeFileDocStrings := []\<rparr>) = [] \<and>
   IsFileInScope fst exampleContains (scenarioConfig\<lparr>excludeFileDocStrings := []\<rparr>)
     exampleFile \<and>
   (\<exists>comment\<in>set (Comments exampleFile).
      fst comment \<le> NamePos (Name exampleFile) \<and>
      (\<exists>exclude\<in>set (excludeFileDocStrings scenarioConfig).
         exampleContains comment exclude)) \<and>
   \<not> IsFileInScope fst exampleContains scenarioConfig exampleFile \<and>
   IsFileInScope fst exampleContains
     (scenarioConfig\<lparr>excludeFileDocStrings := [''@generated'']\<rparr>) exampleFile"
  using IsFileInScope_iff [of "scenarioConfig\<lparr>excludeFileDocStrings := []\<rparr>"
          fst exampleContains exampleFile]
        IsFileInScope_iff [of scenarioConfig fst exampleContains exampleFile]
        IsFileInScope_iff [of "scenarioConfig\<lparr>excludeFileDocStrings := [''@generated'']\<rparr>"
          fst exampleContains exampleFile]
  by (simp add: scenarioConfig_def exampleFile_def exampleContains_def HasPrefix_def)

section \<open>Properties of the configuration analyzer\<close>

lemmas flag_names =
  PrettyPrintFlag_def GroupErrorMessagesFlag_def FuncAnalysisTimeoutFlag_def
  IncludePkgsFlag_def ExcludePkgsFlag_def ExcludeFileDocStringsFlag_def
  ExperimentalStructInitEnableFlag_def ExperimentalAnonymousFunctionFlag_def

lemma analyzerFlags_newFlagSet: "analyzerFlags newFlagSet"
  by (simp add: analyzerFlags_def hasBool_def hasInt_def hasString_def newFlagSet_def
        flag_names)

text \<open>Providing a flag keeps the type of the value of every flag.\<close>

lemma hasBool_Set_flag: "hasBool fs n \<Longrightarrow> hasBool (Set_flag fs nv) n"
  by (cases "snd nv")
     (auto simp: hasBool_def Set_flag_def split: option.splits flag_value.splits)

lemma hasInt_Set_flag: "hasInt fs n \<Longrightarrow> hasInt (Set_flag fs nv) n"
  by (cases "snd nv")
     (auto simp: hasInt_def Set_flag_def split: option.splits flag_value.splits)

lemma hasString_Set_flag: "hasString fs n \<Longrightarrow> hasString (Set_flag fs nv) n"
  by (cases "snd nv")
     (auto simp: hasString_def Set_flag_def split: option.splits flag_value.splits)

lemma analyzerFlags_Set_flag: "analyzerFlags fs \<Longrightarrow> analyzerFlags (Set_flag fs nv)"
  by (simp add: analyzerFlags_def hasBool_Set_flag hasInt_Set_flag hasString_Set_flag)

lemma analyzerFlags_foldl: "analyzerFlags fs \<Longrightarrow> analyzerFlags (foldl Set_flag fs args)"
  by (induction args arbitrary: fs) (simp_all add: analyzerFlags_Set_flag)

lemma analyzerFlags_provided: "analyzerFlags (provided args)"
  by (simp add: provided_def analyzerFlags_foldl analyzerFlags_newFlagSet)

lemma hasBoolE: "hasBool fs n \<Longrightarrow> \<exists>b. fs n = Some (boolValue b)"
  by (auto simp: hasBool_def split: option.splits flag_value.splits)

lemma hasIntE: "hasInt fs n \<Longrightarrow> \<exists>i. fs n = Some (intValue i)"
  by (auto simp: hasInt_def split: option.splits flag_value.splits)

lemma hasStringE: "hasString fs n \<Longrightarrow> \<exists>s. fs n = Some (stringValue s)"
  by (auto simp: hasString_def split: option.splits flag_value.splits)

text \<open>
  On a flag set that has the eight flags with values of their types, \<open>run\<close> returns a
  configuration whose fields are the values of the flags.
\<close>

lemma run_analyzerFlags:
  assumes "analyzerFlags fs"
  shows "\<exists>c. run fs = Inr c \<and>
           Get fs PrettyPrintFlag = Inr (AnyBool (PrettyPrint c)) \<and>
           Get fs GroupErrorMessagesFlag = Inr (AnyBool (GroupErrorMessages c)) \<and>
           Get fs FuncAnalysisTimeoutFlag = Inr (AnyInt (FuncAnalysisTimeout c)) \<and>
           Get fs ExperimentalStructInitEnableFlag =
             Inr (AnyBool (ExperimentalStructInitEnable c)) \<and>
           Get fs ExperimentalAnonymousFunctionFlag =
             Inr (AnyBool (ExperimentalAnonymousFuncEnable c)) \<and>
           (fs IncludePkgsFlag = Some (stringValue []) \<longrightarrow> includePkgs c = [[]]) \<and>
           (fs ExcludePkgsFlag = Some (stringValue []) \<longrightarrow> excludePkgs c = [])"
proof -
  from assms obtain b1 b2 i3 s6 s7 s8 b4 b5 where
    "fs PrettyPrintFlag = Some (boolValue b1)"
    "fs GroupErrorMessagesFlag = Some (boolValue b2)"
    "fs FuncAnalysisTimeoutFlag = Some (intValue i3)"
    "fs IncludePkgsFlag = Some (stringValue s6)"
    "fs ExcludePkgsFlag = Some (stringValue s7)"
    "fs ExcludeFileDocStringsFlag = Some (stringValue s8)"
    "fs ExperimentalStructInitEnableFlag = Some (boolValue b4)"
    "fs ExperimentalAnonymousFunctionFlag = Some (boolValue b5)"
    unfolding analyzerFlags_def
    by (blast dest: hasBoolE hasIntE hasStringE)
  then show ?thesis
    by (simp add: run_def Get_def bindE_def Let_def)
qed

lemma run_newFlagSet:
  "run newFlagSet =
     Inr \<lparr>PrettyPrint = True, GroupErrorMessages = True, FuncAnalysisTimeout = 1,
          ExperimentalStructInitEnable = False, ExperimentalAnonymousFuncEnable = False,
          includePkgs = [''''], excludePkgs = [], excludeFileDocStrings = []\<rparr>"
  by (simp add: run_def Get_def bindE_def Let_def newFlagSet_def flag_names)

text \<open>
  The panics of \<open>run\<close> are in the model: a flag set without the flags, or with a value that
  is no \<open>flag.Getter\<close>, makes it panic. A flag of another type leaves the field as it was.
\<close>

lemma run_undefined_flag: "run Map.empty = Inl NilPointerDereference"
  by (simp add: run_def Get_def bindE_def)

lemma run_no_getter:
  "run (newFlagSet(PrettyPrintFlag \<mapsto> nonGetter)) = Inl TypeAssertionFailed"
  by (simp add: run_def Get_def bindE_def)

lemma Set_flag_other: "fst nv \<noteq> n \<Longrightarrow> Set_flag fs nv n = fs n"
  by (simp add: Set_flag_def split: option.splits)

lemma foldl_Set_flag_other: "n \<notin> fst ` set args \<Longrightarrow> foldl Set_flag fs args n = fs n"
  by (induction args arbitrary: fs) (auto simp: Set_flag_other)

lemma Get_Set_flag_bool:
  "hasBool fs n \<Longrightarrow> Get (Set_flag fs (n, boolValue b)) n = Inr (AnyBool b)"
  by (auto simp: hasBool_def Set_flag_def Get_def split: option.splits flag_value.splits)

lemma Get_Set_flag_int:
  "hasInt fs n \<Longrightarrow> Get (Set_flag fs (n, intValue i)) n = Inr (AnyInt i)"
  by (auto simp: hasInt_def Set_flag_def Get_def split: option.splits flag_value.splits)

lemma provided_snoc: "provided (args @ [nv]) = Set_flag (provided args) nv"
  by (simp add: provided_def)

text \<open>
  C6. The configuration has exactly the primitive knobs \<open>PrettyPrint\<close>,
  \<open>GroupErrorMessages\<close>, \<open>FuncAnalysisTimeout\<close> (seconds), \<open>ExperimentalStructInitEnable\<close>
  and \<open>ExperimentalAnonymousFuncEnable\<close>, beside the three scope lists. With no flag
  provided \<open>run\<close> returns the defaults: pretty printing and grouping on, a timeout of 1,
  both experimental features off. Whatever flags the user provides, \<open>run\<close> returns a
  configuration whose five knobs are the values of the five flags, and the value of a
  flag is the one that was provided last.
\<close>

theorem run_knobs:
  "conf = \<lparr>PrettyPrint = PrettyPrint conf, GroupErrorMessages = GroupErrorMessages conf,
           FuncAnalysisTimeout = FuncAnalysisTimeout conf,
           ExperimentalStructInitEnable = ExperimentalStructInitEnable conf,
           ExperimentalAnonymousFuncEnable = ExperimentalAnonymousFuncEnable conf,
           includePkgs = includePkgs conf, excludePkgs = excludePkgs conf,
           excludeFileDocStrings = excludeFileDocStrings conf\<rparr> \<and>
   run newFlagSet =
     Inr \<lparr>PrettyPrint = True, GroupErrorMessages = True, FuncAnalysisTimeout = 1,
          ExperimentalStructInitEnable = False, ExperimentalAnonymousFuncEnable = False,
          includePkgs = [''''], excludePkgs = [], excludeFileDocStrings = []\<rparr> \<and>
   (\<exists>c. run (provided args) = Inr c \<and>
      Get (provided args) PrettyPrintFlag = Inr (AnyBool (PrettyPrint c)) \<and>
      Get (provided args) GroupErrorMessagesFlag = Inr (AnyBool (GroupErrorMessages c)) \<and>
      Get (provided args) FuncAnalysisTimeoutFlag = Inr (AnyInt (FuncAnalysisTimeout c)) \<and>
      Get (provided args) ExperimentalStructInitEnableFlag =
        Inr (AnyBool (ExperimentalStructInitEnable c)) \<and>
      Get (provided args) ExperimentalAnonymousFunctionFlag =
        Inr (AnyBool (ExperimentalAnonymousFuncEnable c))) \<and>
   Get (provided (args @ [(PrettyPrintFlag, boolValue b)])) PrettyPrintFlag =
     Inr (AnyBool b) \<and>
   Get (provided (args @ [(GroupErrorMessagesFlag, boolValue b)])) GroupErrorMessagesFlag =
     Inr (AnyBool b) \<and>
   Get (provided (args @ [(FuncAnalysisTimeoutFlag, intValue n)])) FuncAnalysisTimeoutFlag =
     Inr (AnyInt n) \<and>
   Get (provided (args @ [(ExperimentalStructInitEnableFlag, boolValue b)]))
     ExperimentalStructInitEnableFlag = Inr (AnyBool b) \<and>
   Get (provided (args @ [(ExperimentalAnonymousFunctionFlag, boolValue b)]))
     ExperimentalAnonymousFunctionFlag = Inr (AnyBool b)"
proof -
  have af: "analyzerFlags (provided args)"
    by (rule analyzerFlags_provided)
  have fields: "\<exists>c. run (provided args) = Inr c \<and>
      Get (provided args) PrettyPrintFlag = Inr (AnyBool (PrettyPrint c)) \<and>
      Get (provided args) GroupErrorMessagesFlag = Inr (AnyBool (GroupErrorMessages c)) \<and>
      Get (provided args) FuncAnalysisTimeoutFlag = Inr (AnyInt (FuncAnalysisTimeout c)) \<and>
      Get (provided args) ExperimentalStructInitEnableFlag =
        Inr (AnyBool (ExperimentalStructInitEnable c)) \<and>
      Get (provided args) ExperimentalAnonymousFunctionFlag =
        Inr (AnyBool (ExperimentalAnonymousFuncEnable c))"
    using run_analyzerFlags [OF af] by blast
  have last:
    "Get (provided (args @ [(PrettyPrintFlag, boolValue b)])) PrettyPrintFlag =
       Inr (AnyBool b)"
    "Get (provided (args @ [(GroupErrorMessagesFlag, boolValue b)])) GroupErrorMessagesFlag =
       Inr (AnyBool b)"
    "Get (provided (args @ [(FuncAnalysisTimeoutFlag, intValue n)])) FuncAnalysisTimeoutFlag =
       Inr (AnyInt n)"
    "Get (provided (args @ [(ExperimentalStructInitEnableFlag, boolValue b)]))
       ExperimentalStructInitEnableFlag = Inr (AnyBool b)"
    "Get (provided (args @ [(ExperimentalAnonymousFunctionFlag, boolValue b)]))
       ExperimentalAnonymousFunctionFlag = Inr (AnyBool b)"
    using af
    by (simp_all add: provided_snoc Get_Set_flag_bool Get_Set_flag_int analyzerFlags_def)
  have whole: "conf = \<lparr>PrettyPrint = PrettyPrint conf,
           GroupErrorMessages = GroupErrorMessages conf,
           FuncAnalysisTimeout = FuncAnalysisTimeout conf,
           ExperimentalStructInitEnable = ExperimentalStructInitEnable conf,
           ExperimentalAnonymousFuncEnable = ExperimentalAnonymousFuncEnable conf,
           includePkgs = includePkgs conf, excludePkgs = excludePkgs conf,
           excludeFileDocStrings = excludeFileDocStrings conf\<rparr>"
    by simp
  from whole run_newFlagSet fields last show ?thesis
    by (intro conjI)
qed

text \<open>
  C8. When the user provides no \<open>include-pkgs\<close> flag, the include list of the
  configuration is the single empty prefix. When no \<open>exclude-pkgs\<close> flag is provided
  either, as in the default configuration, the exclude list is empty and every non-nil
  package is in scope.
\<close>

theorem default_scope_is_everything:
  "(IncludePkgsFlag \<notin> fst ` set args \<longrightarrow>
      (\<exists>c. run (provided args) = Inr c \<and> includePkgs c = [''''])) \<and>
   (IncludePkgsFlag \<notin> fst ` set args \<and> ExcludePkgsFlag \<notin> fst ` set args \<longrightarrow>
      (\<exists>c. run (provided args) = Inr c \<and> includePkgs c = [''''] \<and> excludePkgs c = [] \<and>
           (\<forall>pkg. IsPkgInScope c (Some pkg))))"
proof -
  have af: "analyzerFlags (provided args)"
    by (rule analyzerFlags_provided)
  from run_analyzerFlags [OF af] obtain c where
    c: "run (provided args) = Inr c"
    and inc: "provided args IncludePkgsFlag = Some (stringValue []) \<longrightarrow> includePkgs c = [[]]"
    and exc: "provided args ExcludePkgsFlag = Some (stringValue []) \<longrightarrow> excludePkgs c = []"
    by blast
  have i0: "newFlagSet IncludePkgsFlag = Some (stringValue [])"
    by (simp add: newFlagSet_def flag_names)
  have e0: "newFlagSet ExcludePkgsFlag = Some (stringValue [])"
    by (simp add: newFlagSet_def flag_names)
  have i: "includePkgs c = [[]]" if "IncludePkgsFlag \<notin> fst ` set args"
    using that inc i0 by (simp add: provided_def foldl_Set_flag_other)
  have e: "excludePkgs c = []" if "ExcludePkgsFlag \<notin> fst ` set args"
    using that exc e0 by (simp add: provided_def foldl_Set_flag_other)
  have all: "IsPkgInScope c (Some pkg)" if "includePkgs c = [[]]" "excludePkgs c = []" for pkg
    using that by (simp add: IsPkgInScope_def IsPkgInScope_include_iff)
  from c i e all show ?thesis
    by auto
qed

theorem default_scope_is_everything_witness:
  "IncludePkgsFlag \<notin> fst ` set [(PrettyPrintFlag, boolValue False)] \<and>
   ExcludePkgsFlag \<notin> fst ` set [(PrettyPrintFlag, boolValue False)] \<and>
   (\<exists>c. run (provided [(PrettyPrintFlag, boolValue False)]) = Inr c \<and>
        includePkgs c = [''''] \<and> excludePkgs c = [] \<and>
        (\<forall>pkg. IsPkgInScope c (Some pkg)))"
  using default_scope_is_everything [of "[(PrettyPrintFlag, boolValue False)]"]
  by (simp add: flag_names)

text \<open>
  C10. \<open>run\<close> never fails: whatever flags were provided to the analyzer, it returns a
  configuration (a non-nil pointer) and no error, and it does not panic.
\<close>

theorem run_never_fails:
  "\<exists>c. run (provided args) = Inr c"
  using run_analyzerFlags [OF analyzerFlags_provided] by blast

end
